theory Spec2Isabelle
  imports Main
begin

section \<open>ScriptExecutor (lpm_kernel/api/common/script_executor.py)\<close>

text \<open>
  A shallow embedding of the class \<^verbatim>\<open>ScriptExecutor\<close>. Everything the Python code
  does beyond computing a value is explicit: the process state the code reads and
  writes (environment variables, file system, list objects, the observable effects
  in the order they happen) is a record that is passed through, a raised exception
  is the left summand of the outcome, and a call that never returns is \<open>None\<close>.
\<close>

subsection \<open>Python values\<close>

text \<open>
  \<^verbatim>\<open>except Exception\<close> catches the instances of \<^verbatim>\<open>Exception\<close>; \<^verbatim>\<open>KeyboardInterrupt\<close>,
  \<^verbatim>\<open>SystemExit\<close> and \<^verbatim>\<open>GeneratorExit\<close> derive from \<^verbatim>\<open>BaseException\<close> only. A raised
  object carries the root it derives from, its class name and \<^verbatim>\<open>str(e)\<close>.
\<close>

datatype exn_root = Exception | BaseException

datatype exn = Exn exn_root string string

fun is_Exception :: "exn \<Rightarrow> bool" where
  "is_Exception (Exn r n m) = (r = Exception)"

fun str_exn :: "exn \<Rightarrow> string" where
  "str_exn (Exn r n m) = m"

text \<open>\<^verbatim>\<open>s.endswith(suffix)\<close>.\<close>

definition endswith :: "string \<Rightarrow> string \<Rightarrow> bool" where
  "endswith s suf = (length suf \<le> length s \<and> drop (length s - length suf) s = suf)"

text \<open>\<^verbatim>\<open>sep.join(xs)\<close>.\<close>

fun str_join :: "string \<Rightarrow> string list \<Rightarrow> string" where
  "str_join sep [] = []"
| "str_join sep [x] = x"
| "str_join sep (x # y # ys) = x @ sep @ str_join sep (y # ys)"

text \<open>
  \<^verbatim>\<open>str.isspace\<close> on one character, a \<open>char\<close> standing for the code point of the same
  number: the whitespace code points below 256 are 9 to 13, 28 to 32, 133 and 160.
\<close>

definition py_isspace :: "char \<Rightarrow> bool" where
  "py_isspace c = (let n = (of_char c :: nat) in
     (9 \<le> n \<and> n \<le> 13) \<or> (28 \<le> n \<and> n \<le> 32) \<or> n = 133 \<or> n = 160)"

text \<open>\<^verbatim>\<open>s.strip()\<close> removes leading and trailing whitespace, \<^verbatim>\<open>s.rstrip()\<close> trailing only.\<close>

definition py_rstrip :: "string \<Rightarrow> string" where
  "py_rstrip s = rev (dropWhile py_isspace (rev s))"

definition py_strip :: "string \<Rightarrow> string" where
  "py_strip s = dropWhile py_isspace (py_rstrip s)"

text \<open>\<^verbatim>\<open>str(n)\<close> for an integer: decimal digits, with a minus sign when negative.\<close>

definition digit_char :: "nat \<Rightarrow> char" where
  "digit_char d = ''0123456789'' ! d"

fun str_nat :: "nat \<Rightarrow> string" where
  "str_nat n = (if n < 10 then [digit_char n] else str_nat (n div 10) @ [digit_char (n mod 10)])"

declare str_nat.simps [simp del]

definition str_int :: "int \<Rightarrow> string" where
  "str_int i = (if i < 0 then CHR ''-'' # str_nat (nat (- i)) else str_nat (nat i))"

subsection \<open>The process state\<close>

datatype level = INFO | ERROR

text \<open>The effects of a call on the outside, in the order they happen.\<close>

datatype event =
    Log level string
  | MakeDirs string
  | Spawn "string list" bool
  | Print string
  | FileOpen string
  | FileWrite string string
  | FileClose string

text \<open>
  \<open>environ\<close> is \<^verbatim>\<open>os.environ\<close>; \<open>dirs\<close> are the paths that name a directory and
  \<open>files\<close> the regular files with their content; \<open>heap\<close> holds the list objects, a
  reference being an index; \<open>trace\<close> collects the effects.
\<close>

record sys =
  environ :: "string \<rightharpoonup> string"
  dirs :: "string set"
  files :: "string \<rightharpoonup> string"
  heap :: "string list list"
  trace :: "event list"

definition emit :: "event \<Rightarrow> sys \<Rightarrow> sys" where
  "emit ev s = s\<lparr>trace := trace s @ [ev]\<rparr>"

text \<open>A list literal allocates a new object; \<^verbatim>\<open>c.extend(a)\<close> changes the object \<open>c\<close>.\<close>

definition new_list :: "string list \<Rightarrow> sys \<Rightarrow> nat \<times> sys" where
  "new_list xs s = (length (heap s), s\<lparr>heap := heap s @ [xs]\<rparr>)"

definition list_extend :: "nat \<Rightarrow> nat \<Rightarrow> sys \<Rightarrow> sys" where
  "list_extend c a s = s\<lparr>heap := (heap s)[c := heap s ! c @ heap s ! a]\<rparr>"

subsection \<open>The executor, its requests and results\<close>

record ScriptExecutor =
  in_docker :: bool
  conda_env :: string

text \<open>
  The parameters of \<^verbatim>\<open>execute\<close>. \<open>args\<close> is \<^verbatim>\<open>None\<close> or a reference to the caller's list;
  \<open>log_file\<close> is \<^verbatim>\<open>None\<close> or a string.
\<close>

record request =
  script_path :: string
  script_type :: string
  args :: "nat option"
  shell :: bool
  log_file :: "string option"

text \<open>The returned dictionary: \<^verbatim>\<open>{"returncode": ..., "error": ...}\<close>.\<close>

record result =
  returncode :: int
  error :: "string option"

text \<open>A reference handed in by the caller points to an existing object.\<close>

definition valid_args :: "request \<Rightarrow> sys \<Rightarrow> bool" where
  "valid_args req s = (case args req of None \<Rightarrow> True | Some a \<Rightarrow> a < length (heap s))"

text \<open>The list the caller passed, as a value; nothing when \<open>args\<close> is \<^verbatim>\<open>None\<close>.\<close>

definition args_value :: "request \<Rightarrow> sys \<Rightarrow> string list" where
  "args_value req s = (case args req of None \<Rightarrow> [] | Some a \<Rightarrow> heap s ! a)"

subsection \<open>Construction\<close>

definition os_getenv :: "sys \<Rightarrow> string \<Rightarrow> string option" where
  "os_getenv s k = environ s k"

definition path_exists :: "sys \<Rightarrow> string \<Rightarrow> bool" where
  "path_exists s p = (p \<in> dirs s \<or> files s p \<noteq> None)"

text \<open>
  \<^verbatim>\<open>__init__\<close>: the only raise of the class. \<^verbatim>\<open>not self.conda_env\<close> holds for \<^verbatim>\<open>None\<close>
  and for the empty string.
\<close>

definition init :: "sys \<Rightarrow> exn + ScriptExecutor" where
  "init s =
     (let in_docker = (os_getenv s ''IN_DOCKER_ENV'' = Some ''1'' \<or> path_exists s ''/.dockerenv'')
      in if \<not> in_docker then
           (let conda_env = os_getenv s ''CONDA_DEFAULT_ENV''
            in if conda_env = None \<or> conda_env = Some [] then
                 Inl (Exn Exception ''ValueError''
                   ''CONDA_DEFAULT_ENV environment variable is not set and not running in Docker'')
               else Inr \<lparr>in_docker = in_docker, conda_env = the conda_env\<rparr>)
         else Inr \<lparr>in_docker = in_docker, conda_env = ''docker-env''\<rparr>)"

subsection \<open>Command construction\<close>

text \<open>
  Lines 50 to 86 of \<^verbatim>\<open>execute\<close>: \<open>cmd\<close> is a new list object, and \<^verbatim>\<open>if args:\<close> holds
  for a list that is not empty.
\<close>

definition build_cmd :: "ScriptExecutor \<Rightarrow> request \<Rightarrow> sys \<Rightarrow> nat \<times> sys" where
  "build_cmd self req s =
     (let (cmd, s1) =
        (if in_docker self then
           (if endswith (script_path req) ''.py'' then
              new_list [''python'', script_path req] s
            else
              new_list [script_path req] s)
         else
           (if endswith (script_path req) ''.py'' then
              new_list [''conda'', ''run'', ''-n'', conda_env self,
                        ''python'', ''-u'', script_path req] s
            else if endswith (script_path req) ''.sh'' then
              new_list [''conda'', ''run'', ''-n'', conda_env self,
                        ''bash'', ''-x'', script_path req] s
            else
              new_list [''conda'', ''run'', ''-n'', conda_env self, script_path req] s))
      in (cmd,
          (case args req of
             None \<Rightarrow> s1
           | Some a \<Rightarrow> if heap s1 ! a \<noteq> [] then list_extend cmd a s1 else s1)))"

text \<open>The command as a value: the content of the object \<open>cmd\<close> after construction.\<close>

definition cmd_value :: "ScriptExecutor \<Rightarrow> request \<Rightarrow> sys \<Rightarrow> string list" where
  "cmd_value self req s = (let (cmd, s1) = build_cmd self req s in heap s1 ! cmd)"

subsection \<open>The operating system\<close>

text \<open>
  What \<^verbatim>\<open>subprocess.Popen\<close> hands back, seen from the parent: the lines that
  successive \<^verbatim>\<open>readline()\<close> calls on the combined pipe produce (or the exception one
  raises), whether the child closes the pipe after them (if not, \<^verbatim>\<open>readline()\<close> blocks for
  ever once they are read), how many \<^verbatim>\<open>poll()\<close> calls still find the child running
  (\<open>None\<close>: it never exits), its exit status, and the attribute \<^verbatim>\<open>returncode\<close>.
\<close>

datatype read_ev = Line string | ReadRaises exn

record Popen =
  pending :: "read_ev list"
  closes :: bool
  polls_running :: "nat option"
  exit_status :: int
  returncode_attr :: "int option"

text \<open>
  The behaviour of the outside that the code cannot control: which calls fail with
  which exception, and what a spawned child does. Each answer may depend on the
  process state at the call.
\<close>

record world =
  makedirs_fault :: "sys \<Rightarrow> string \<Rightarrow> exn option"
  popen :: "sys \<Rightarrow> string list \<Rightarrow> bool \<Rightarrow> exn + Popen"
  print_fault :: "sys \<Rightarrow> string \<Rightarrow> exn option"
  open_fault :: "sys \<Rightarrow> string \<Rightarrow> exn option"
  write_fault :: "sys \<Rightarrow> string \<Rightarrow> string \<Rightarrow> exn option"

text \<open>A Python truth test on an optional string: \<^verbatim>\<open>None\<close> and \<^verbatim>\<open>""\<close> are false.\<close>

definition truthy :: "string option \<Rightarrow> bool" where
  "truthy x = (x \<noteq> None \<and> x \<noteq> Some [])"

text \<open>
  \<^verbatim>\<open>os.path.dirname\<close> (posixpath): the part up to and including the last slash, with
  trailing slashes removed unless it consists of slashes only.
\<close>

definition os_path_dirname :: "string \<Rightarrow> string" where
  "os_path_dirname p =
     (let head = rev (dropWhile (\<lambda>c. c \<noteq> CHR ''/'') (rev p))
      in if head \<noteq> [] \<and> \<not> list_all (\<lambda>c. c = CHR ''/'') head
         then rev (dropWhile (\<lambda>c. c = CHR ''/'') (rev head)) else head)"

text \<open>The directories on the way to \<open>name\<close>: its prefixes before a slash, and \<open>name\<close>.\<close>

definition dir_chain :: "string \<Rightarrow> string list" where
  "dir_chain name =
     map (\<lambda>i. take i name) (filter (\<lambda>i. name ! i = CHR ''/'') [1..<length name]) @ [name]"

text \<open>
  \<^verbatim>\<open>os.makedirs(name, exist_ok=True)\<close>. On the empty path \<^verbatim>\<open>mkdir\<close> fails and the
  path is no directory, so \<^verbatim>\<open>FileNotFoundError\<close> is raised whatever the file system
  holds; otherwise the call fails as the world says or leaves every directory on the
  way in place.
\<close>

definition os_makedirs :: "world \<Rightarrow> string \<Rightarrow> sys \<Rightarrow> (exn + unit) \<times> sys" where
  "os_makedirs w name s =
     (if name = [] then
        (Inl (Exn Exception ''FileNotFoundError''
               (''[Errno 2] No such file or directory: '' @ [CHR 0x27, CHR 0x27])), s)
      else
        (case makedirs_fault w s name of
           Some e \<Rightarrow> (Inl e, s)
         | None \<Rightarrow> (Inr (), emit (MakeDirs name) (s\<lparr>dirs := dirs s \<union> set (dir_chain name)\<rparr>))))"

text \<open>\<^verbatim>\<open>subprocess.Popen(cmd, shell=shell, env=os.environ.copy(), ...)\<close>.\<close>

definition subprocess_Popen :: "world \<Rightarrow> string list \<Rightarrow> bool \<Rightarrow> sys \<Rightarrow> (exn + Popen) \<times> sys" where
  "subprocess_Popen w cmd sh s =
     (case popen w s cmd sh of
        Inl e \<Rightarrow> (Inl e, s)
      | Inr p \<Rightarrow> (Inr p, emit (Spawn cmd sh) s))"

text \<open>
  The pipe is opened with \<^verbatim>\<open>universal_newlines=True\<close> (line 102), that is in text mode
  with universal newlines: in the text the child writes, every \<^verbatim>\<open>\r\n\<close> and every
  other \<^verbatim>\<open>\r\<close> reaches the reader as \<^verbatim>\<open>\n\<close>.
\<close>

fun universal_newlines :: "string \<Rightarrow> string" where
  "universal_newlines [] = []"
| "universal_newlines (x # xs) =
     (if x = CHR 0x0D then
        CHR 0x0A # (case xs of
                      [] \<Rightarrow> []
                    | y # ys \<Rightarrow> if y = CHR 0x0A then universal_newlines ys
                               else universal_newlines xs)
      else x # universal_newlines xs)"

text \<open>The lines of a text: each ends with its \<^verbatim>\<open>\n\<close>, but for a last line without one.\<close>

fun split_lines :: "string \<Rightarrow> string list" where
  "split_lines [] = []"
| "split_lines (x # xs) =
     (if x = CHR 0x0A then [x] # split_lines xs
      else (case split_lines xs of [] \<Rightarrow> [[x]] | l # ls \<Rightarrow> (x # l) # ls))"

text \<open>What successive \<^verbatim>\<open>readline()\<close> calls return when the child writes \<open>out\<close>.\<close>

definition text_lines :: "string \<Rightarrow> string list" where
  "text_lines out = split_lines (universal_newlines out)"

text \<open>
  \<^verbatim>\<open>process.stdout.readline()\<close>: the next line, the empty string at end of file;
  \<open>None\<close> when the call blocks for ever.
\<close>

definition readline :: "Popen \<Rightarrow> ((exn + string) \<times> Popen) option" where
  "readline p =
     (case pending p of
        Line l # rest \<Rightarrow> Some (Inr l, p\<lparr>pending := rest\<rparr>)
      | ReadRaises e # rest \<Rightarrow> Some (Inl e, p\<lparr>pending := rest\<rparr>)
      | [] \<Rightarrow> if closes p then Some (Inr [], p) else None)"

text \<open>\<^verbatim>\<open>process.poll()\<close>: sets and returns \<^verbatim>\<open>returncode\<close> once the child has exited.\<close>

definition poll :: "Popen \<Rightarrow> int option \<times> Popen" where
  "poll p =
     (case returncode_attr p of
        Some c \<Rightarrow> (Some c, p)
      | None \<Rightarrow>
         (case polls_running p of
            None \<Rightarrow> (None, p)
          | Some 0 \<Rightarrow> (Some (exit_status p), p\<lparr>returncode_attr := Some (exit_status p)\<rparr>)
          | Some (Suc n) \<Rightarrow> (None, p\<lparr>polls_running := Some n\<rparr>)))"

text \<open>
  \<^verbatim>\<open>process.wait()\<close>: returns \<^verbatim>\<open>returncode\<close> when it is set, otherwise waits for the
  child to exit; \<open>None\<close> when it never does.
\<close>

definition wait :: "Popen \<Rightarrow> (int \<times> Popen) option" where
  "wait p =
     (case returncode_attr p of
        Some c \<Rightarrow> Some (c, p)
      | None \<Rightarrow>
         (case polls_running p of
            None \<Rightarrow> None
          | Some n \<Rightarrow> Some (exit_status p, p\<lparr>returncode_attr := Some (exit_status p)\<rparr>)))"

text \<open>\<^verbatim>\<open>print(x)\<close>: \<open>x\<close> and a newline on the standard output of the calling process.\<close>

definition py_print :: "world \<Rightarrow> string \<Rightarrow> sys \<Rightarrow> (exn + unit) \<times> sys" where
  "py_print w x s =
     (case print_fault w s x of
        Some e \<Rightarrow> (Inl e, s)
      | None \<Rightarrow> (Inr (), emit (Print x) s))"

text \<open>
  \<^verbatim>\<open>with open(path, "a", encoding="utf-8") as f: f.write(data)\<close>: opening for append
  creates a missing file, and leaving the block closes the file, also when the write
  raises.
\<close>

definition append_file :: "world \<Rightarrow> string \<Rightarrow> string \<Rightarrow> sys \<Rightarrow> (exn + unit) \<times> sys" where
  "append_file w path data s =
     (case open_fault w s path of
        Some e \<Rightarrow> (Inl e, s)
      | None \<Rightarrow>
         (let old = (case files s path of None \<Rightarrow> [] | Some c \<Rightarrow> c);
              s1 = emit (FileOpen path) (s\<lparr>files := (files s)(path \<mapsto> old)\<rparr>)
          in case write_fault w s1 path data of
               Some e \<Rightarrow> (Inl e, emit (FileClose path) s1)
             | None \<Rightarrow>
                (Inr (), emit (FileClose path)
                   (emit (FileWrite path data) (s1\<lparr>files := (files s1)(path \<mapsto> old @ data)\<rparr>)))))"

text \<open>
  Modelled from the spec: the logger of \<^verbatim>\<open>lpm_kernel.common.logging\<close>, which is not
  part of the source at hand; a call emits one line at its level.
\<close>

definition logger_info :: "string \<Rightarrow> sys \<Rightarrow> sys" where
  "logger_info msg s = emit (Log INFO msg) s"

definition logger_error :: "string \<Rightarrow> sys \<Rightarrow> sys" where
  "logger_error msg s = emit (Log ERROR msg) s"

subsection \<open>The drain loop\<close>

text \<open>
  One pass through the body of \<^verbatim>\<open>while True:\<close> (lines 107 to 116). \<^verbatim>\<open>poll()\<close> is
  called only when the line read is empty.
\<close>

datatype step = Blocked | Raised exn sys | Break Popen sys | Continue Popen sys

definition drain_step :: "world \<Rightarrow> string option \<Rightarrow> Popen \<Rightarrow> sys \<Rightarrow> step" where
  "drain_step w lf p s =
     (case readline p of
        None \<Rightarrow> Blocked
      | Some (Inl e, p1) \<Rightarrow> Raised e s
      | Some (Inr output, p1) \<Rightarrow>
         (let (stop, p2) =
            (if output = [] then (let (rc, p') = poll p1 in (rc \<noteq> None, p'))
             else (False, p1))
          in if stop then Break p2 s
             else if output \<noteq> [] then
               (case py_print w (py_strip output) s of
                  (Inl e, s1) \<Rightarrow> Raised e s1
                | (Inr u, s1) \<Rightarrow>
                   (if truthy lf then
                      (case append_file w (the lf) output s1 of
                         (Inl e, s2) \<Rightarrow> Raised e s2
                       | (Inr u', s2) \<Rightarrow> Continue p2 s2)
                    else Continue p2 s1))
             else Continue p2 s))"

text \<open>The loop: it returns when a pass breaks or raises, and not at all otherwise.\<close>

partial_function (option) drain ::
  "world \<Rightarrow> string option \<Rightarrow> Popen \<Rightarrow> sys \<Rightarrow> ((exn + Popen) \<times> sys) option" where
  "drain w lf p s =
     (case drain_step w lf p s of
        Blocked \<Rightarrow> None
      | Raised e s' \<Rightarrow> Some (Inl e, s')
      | Break p' s' \<Rightarrow> Some (Inr p', s')
      | Continue p' s' \<Rightarrow> drain w lf p' s')"

subsection \<open>execute\<close>

text \<open>The body of the \<^verbatim>\<open>try\<close> block, lines 49 to 131.\<close>

definition execute_body ::
  "world \<Rightarrow> ScriptExecutor \<Rightarrow> request \<Rightarrow> sys \<Rightarrow> ((exn + result) \<times> sys) option" where
  "execute_body w self req s =
     (let (cmd, s1) = build_cmd self req s;
          s2 = logger_info (''Executing command: '' @ str_join '' '' (heap s1 ! cmd)) s1
      in case (if truthy (log_file req)
               then os_makedirs w (os_path_dirname (the (log_file req))) s2
               else (Inr (), s2)) of
           (Inl e, s3) \<Rightarrow> Some (Inl e, s3)
         | (Inr u, s3) \<Rightarrow>
            (case subprocess_Popen w (heap s3 ! cmd) (shell req) s3 of
               (Inl e, s4) \<Rightarrow> Some (Inl e, s4)
             | (Inr process, s4) \<Rightarrow>
                (case drain w (log_file req) process s4 of
                   None \<Rightarrow> None
                 | Some (Inl e, s5) \<Rightarrow> Some (Inl e, s5)
                 | Some (Inr process', s5) \<Rightarrow>
                    (case wait process' of
                       None \<Rightarrow> None
                     | Some (return_code, process'') \<Rightarrow>
                        (let s6 =
                           (if return_code \<noteq> 0 then
                              logger_error (''Command execution failed, return code: ''
                                            @ str_int return_code) s5
                            else
                              logger_info (''Command execution successful, return code: ''
                                           @ str_int return_code) s5)
                         in Some (Inr \<lparr>returncode = return_code,
                                       error = (if return_code \<noteq> 0
                                                then Some (''Execution failed, return code: ''
                                                           @ str_int return_code)
                                                else None)\<rparr>, s6))))))"

text \<open>
  \<^verbatim>\<open>execute\<close>: the \<^verbatim>\<open>try\<close> block under \<^verbatim>\<open>except Exception as e\<close> (lines 133 to 136).
  The method assigns to no attribute of \<open>self\<close>; the executor is handed back with the
  outcome and the process state.
\<close>

definition execute ::
  "world \<Rightarrow> ScriptExecutor \<Rightarrow> request \<Rightarrow> sys \<Rightarrow> ((exn + result) \<times> ScriptExecutor \<times> sys) option" where
  "execute w self req s =
     (case execute_body w self req s of
        None \<Rightarrow> None
      | Some (Inr r, s') \<Rightarrow> Some (Inr r, self, s')
      | Some (Inl e, s') \<Rightarrow>
         (if is_Exception e then
            (let error_msg = ''Error occurred while executing '' @ script_type req
                             @ '' script: '' @ str_exn e
             in Some (Inr \<lparr>returncode = - 1, error = Some error_msg\<rparr>, self,
                      logger_error error_msg s'))
          else Some (Inl e, self, s')))"

subsection \<open>Runs in which no call fails\<close>

text \<open>No call to the outside raises.\<close>

definition no_faults :: "world \<Rightarrow> bool" where
  "no_faults w =
     ((\<forall>s d. makedirs_fault w s d = None) \<and> (\<forall>s x. print_fault w s x = None) \<and>
      (\<forall>s p. open_fault w s p = None) \<and> (\<forall>s p d. write_fault w s p d = None))"

text \<open>
  The lines \<open>ls\<close> are read from the child, none of them empty (\<^verbatim>\<open>readline()\<close> returns
  the empty string at end of file only); the child then closes the pipe and exits with
  status \<open>c\<close>.
\<close>

definition exits :: "Popen \<Rightarrow> string list \<Rightarrow> int \<Rightarrow> bool" where
  "exits p ls c =
     (pending p = map Line ls \<and> [] \<notin> set ls \<and> closes p \<and> polls_running p \<noteq> None \<and>
      returncode_attr p = None \<and> exit_status p = c)"

text \<open>Every spawn succeeds with such a child.\<close>

definition spawns :: "world \<Rightarrow> string list \<Rightarrow> int \<Rightarrow> bool" where
  "spawns w ls c = (\<forall>s cmd sh. \<exists>p. popen w s cmd sh = Inr p \<and> exits p ls c)"

text \<open>Every spawn succeeds with a child that writes the text \<open>out\<close> and exits with status \<open>c\<close>.\<close>

definition spawns_writing :: "world \<Rightarrow> string \<Rightarrow> int \<Rightarrow> bool" where
  "spawns_writing w out c = spawns w (text_lines out) c"

text \<open>What handling one line of output does when nothing fails: its effects and the state after it.\<close>

definition line_events :: "string option \<Rightarrow> string \<Rightarrow> event list" where
  "line_events lf l =
     Print (py_strip l) #
     (if truthy lf then [FileOpen (the lf), FileWrite (the lf) l, FileClose (the lf)] else [])"

definition line_effect :: "string option \<Rightarrow> string \<Rightarrow> sys \<Rightarrow> sys" where
  "line_effect lf l s =
     (if truthy lf then
        s\<lparr>files := (files s)(the lf \<mapsto> (case files s (the lf) of None \<Rightarrow> [] | Some c \<Rightarrow> c) @ l),
          trace := trace s @ line_events lf l\<rparr>
      else s\<lparr>trace := trace s @ line_events lf l\<rparr>)"

text \<open>The state after the lines \<open>ls\<close> have been handled in order.\<close>

fun drain_effect :: "string option \<Rightarrow> string list \<Rightarrow> sys \<Rightarrow> sys" where
  "drain_effect lf [] s = s"
| "drain_effect lf (l # ls) s = drain_effect lf ls (line_effect lf l s)"

subsection \<open>Sample inputs\<close>

text \<open>A process state with no environment variable, an empty file system and the given list objects.\<close>

definition sys_of :: "string list list \<Rightarrow> sys" where
  "sys_of h = \<lparr>environ = Map.empty, dirs = {}, files = Map.empty, heap = h, trace = []\<rparr>"

text \<open>A world where no call fails and every spawn gives the same answer.\<close>

definition world_of :: "exn + Popen \<Rightarrow> world" where
  "world_of r = \<lparr>makedirs_fault = (\<lambda>s p. None), popen = (\<lambda>s c b. r),
                 print_fault = (\<lambda>s x. None), open_fault = (\<lambda>s p. None),
                 write_fault = (\<lambda>s p d. None)\<rparr>"

text \<open>A child from which the given lines are read, which then closes the pipe and exits at once.\<close>

definition child_of :: "string list \<Rightarrow> int \<Rightarrow> Popen" where
  "child_of ls c = \<lparr>pending = map Line ls, closes = True, polls_running = Some 0,
                     exit_status = c, returncode_attr = None\<rparr>"

text \<open>An executor in a container, a request for a script, and a child interrupted while read from.\<close>

definition docker_self :: ScriptExecutor where
  "docker_self = \<lparr>in_docker = True, conda_env = ''docker-env''\<rparr>"

definition job :: "string \<Rightarrow> nat option \<Rightarrow> string option \<Rightarrow> request" where
  "job path a lf = \<lparr>script_path = path, script_type = ''python'', args = a, shell = False, log_file = lf\<rparr>"

definition interrupted :: Popen where
  "interrupted = \<lparr>pending = [ReadRaises (Exn BaseException ''KeyboardInterrupt'' [])],
     closes = True, polls_running = Some 0, exit_status = 0, returncode_attr = None\<rparr>"

text \<open>Two outputs with carriage returns: a progress display, and an indented line ending in \<^verbatim>\<open>\r\n\<close>.\<close>

definition progress_output :: string where
  "progress_output = ''10%'' @ [CHR 0x0D] @ ''done'' @ [CHR 0x0D, CHR 0x0A]"

definition indented_crlf :: string where
  "indented_crlf = ''  hi'' @ [CHR 0x0D, CHR 0x0A]"

section \<open>Properties\<close>

subsection \<open>Strings\<close>

lemma endswith_sh_not_py: "endswith p ''.sh'' \<Longrightarrow> \<not> endswith p ''.py''"
  by (auto simp: endswith_def)

subsection \<open>Construction\<close>

text \<open>
  C2. Construction raises (the \<^verbatim>\<open>ValueError\<close>, and no executor) exactly when the
  context is not containerized, that is \<^verbatim>\<open>IN_DOCKER_ENV\<close> is not \<^verbatim>\<open>"1"\<close> and
  \<^verbatim>\<open>/.dockerenv\<close> does not exist, and \<^verbatim>\<open>CONDA_DEFAULT_ENV\<close> is unset or empty; on every
  other input it yields an executor.
\<close>

theorem init_fails_iff:
  "((\<exists>e. init s = Inl e) \<longleftrightarrow>
      (os_getenv s ''IN_DOCKER_ENV'' \<noteq> Some ''1'' \<and> \<not> path_exists s ''/.dockerenv'' \<and>
       (os_getenv s ''CONDA_DEFAULT_ENV'' = None \<or> os_getenv s ''CONDA_DEFAULT_ENV'' = Some [])))
   \<and> ((\<exists>ex. init s = Inr ex) \<longleftrightarrow>
      \<not> (os_getenv s ''IN_DOCKER_ENV'' \<noteq> Some ''1'' \<and> \<not> path_exists s ''/.dockerenv'' \<and>
       (os_getenv s ''CONDA_DEFAULT_ENV'' = None \<or> os_getenv s ''CONDA_DEFAULT_ENV'' = Some [])))"
  by (auto simp: init_def Let_def)

theorem init_fails_iff_witness:
  "(\<exists>e. init (sys_of [])  = Inl e) \<and>
   (\<exists>ex. init ((sys_of []) \<lparr>environ := [''CONDA_DEFAULT_ENV'' \<mapsto> ''second-me'']\<rparr>) = Inr ex) \<and>
   (\<exists>ex. init ((sys_of []) \<lparr>environ := [''IN_DOCKER_ENV'' \<mapsto> ''1'']\<rparr>) = Inr ex) \<and>
   (\<exists>ex. init ((sys_of []) \<lparr>files := [''/.dockerenv'' \<mapsto> '''']\<rparr>) = Inr ex)"
  using init_fails_iff [of "sys_of []"]
    init_fails_iff [of "(sys_of []) \<lparr>environ := [''CONDA_DEFAULT_ENV'' \<mapsto> ''second-me'']\<rparr>"]
    init_fails_iff [of "(sys_of []) \<lparr>environ := [''IN_DOCKER_ENV'' \<mapsto> ''1'']\<rparr>"]
    init_fails_iff [of "(sys_of []) \<lparr>files := [''/.dockerenv'' \<mapsto> '''']\<rparr>"]
  by (simp add: sys_of_def os_getenv_def path_exists_def)

subsection \<open>Command construction\<close>

lemma cmd_value_eq:
  "valid_args req s \<Longrightarrow>
   cmd_value self req s =
     (if in_docker self then
        (if endswith (script_path req) ''.py'' then [''python'', script_path req]
         else [script_path req])
      else
        [''conda'', ''run'', ''-n'', conda_env self] @
        (if endswith (script_path req) ''.py'' then [''python'', ''-u'', script_path req]
         else if endswith (script_path req) ''.sh'' then [''bash'', ''-x'', script_path req]
         else [script_path req]))
     @ args_value req s"
  by (auto simp: cmd_value_def build_cmd_def new_list_def list_extend_def valid_args_def
        args_value_def nth_append Let_def split: option.splits)

text \<open>
  C3. Outside a container the command is \<^verbatim>\<open>conda run -n <conda_env>\<close> followed by
  \<^verbatim>\<open>python -u <script_path>\<close> for a path ending in \<^verbatim>\<open>.py\<close>, by \<^verbatim>\<open>bash -x <script_path>\<close>
  for a path ending in \<^verbatim>\<open>.sh\<close>, and by the path alone otherwise, each time followed by
  the arguments in order; in particular a \<^verbatim>\<open>.sh\<close> path gives exactly
  \<^verbatim>\<open>conda run -n <conda_env> bash -x <script_path>\<close> and the arguments.
\<close>

theorem conda_command:
  assumes "\<not> in_docker self" and "valid_args req s"
  shows "cmd_value self req s =
           [''conda'', ''run'', ''-n'', conda_env self] @
           (if endswith (script_path req) ''.py'' then [''python'', ''-u'', script_path req]
            else if endswith (script_path req) ''.sh'' then [''bash'', ''-x'', script_path req]
            else [script_path req])
           @ args_value req s
         \<and> (endswith (script_path req) ''.sh'' \<longrightarrow>
            cmd_value self req s =
              [''conda'', ''run'', ''-n'', conda_env self, ''bash'', ''-x'', script_path req]
              @ args_value req s)"
  using assms by (simp add: cmd_value_eq endswith_sh_not_py)

theorem conda_command_witness:
  "\<not> in_docker \<lparr>in_docker = False, conda_env = ''second-me''\<rparr> \<and>
   valid_args \<lparr>script_path = ''train.sh'', script_type = ''shell'', args = Some 0,
               shell = False, log_file = None\<rparr> (sys_of [[''--lr'', ''3'']]) \<and>
   endswith ''train.sh'' ''.sh'' \<and>
   cmd_value \<lparr>in_docker = False, conda_env = ''second-me''\<rparr>
     \<lparr>script_path = ''train.sh'', script_type = ''shell'', args = Some 0,
      shell = False, log_file = None\<rparr> (sys_of [[''--lr'', ''3'']])
   = [''conda'', ''run'', ''-n'', ''second-me'', ''bash'', ''-x'', ''train.sh'', ''--lr'', ''3'']"
  using conda_command [of "\<lparr>in_docker = False, conda_env = ''second-me''\<rparr>"
      "\<lparr>script_path = ''train.sh'', script_type = ''shell'', args = Some 0,
        shell = False, log_file = None\<rparr>" "sys_of [[''--lr'', ''3'']]"]
  by (simp add: valid_args_def args_value_def sys_of_def endswith_def)

text \<open>
  C4. In a container the command is \<^verbatim>\<open>python <script_path>\<close> and the arguments for a
  path ending in \<^verbatim>\<open>.py\<close>, with no environment wrapper and no \<^verbatim>\<open>-u\<close>, and the path
  and the arguments for every other path.
\<close>

theorem docker_command:
  assumes "in_docker self" and "valid_args req s"
  shows "cmd_value self req s =
           (if endswith (script_path req) ''.py'' then [''python'', script_path req]
            else [script_path req])
           @ args_value req s"
  using assms by (simp add: cmd_value_eq)

theorem docker_command_witness:
  "in_docker \<lparr>in_docker = True, conda_env = ''docker-env''\<rparr> \<and>
   valid_args \<lparr>script_path = ''job.py'', script_type = ''python'', args = Some 0,
               shell = False, log_file = None\<rparr> (sys_of [[''--x'', ''1'']]) \<and>
   cmd_value \<lparr>in_docker = True, conda_env = ''docker-env''\<rparr>
     \<lparr>script_path = ''job.py'', script_type = ''python'', args = Some 0,
      shell = False, log_file = None\<rparr> (sys_of [[''--x'', ''1'']])
   = [''python'', ''job.py'', ''--x'', ''1'']"
  using docker_command [of "\<lparr>in_docker = True, conda_env = ''docker-env''\<rparr>"
      "\<lparr>script_path = ''job.py'', script_type = ''python'', args = Some 0,
        shell = False, log_file = None\<rparr>" "sys_of [[''--x'', ''1'']]"]
  by (simp add: valid_args_def args_value_def sys_of_def endswith_def)

subsection \<open>The drain loop when nothing fails\<close>

lemma step_line:
  assumes "no_faults w" "pending p = Line l # rest" "l \<noteq> []"
  shows "drain_step w lf p s = Continue (p\<lparr>pending := rest\<rparr>) (line_effect lf l s)"
  using assms
  by (simp add: drain_step_def readline_def py_print_def append_file_def no_faults_def
      line_effect_def line_events_def emit_def Let_def)

lemma step_running:
  assumes "pending p = []" "closes p" "returncode_attr p = None" "polls_running p = Some (Suc n)"
  shows "drain_step w lf p s = Continue (p\<lparr>polls_running := Some n\<rparr>) s"
  using assms by (simp add: drain_step_def readline_def poll_def)

lemma step_exited:
  assumes "pending p = []" "closes p" "returncode_attr p = None" "polls_running p = Some 0"
  shows "drain_step w lf p s = Break (p\<lparr>returncode_attr := Some (exit_status p)\<rparr>) s"
  using assms by (simp add: drain_step_def readline_def poll_def)

lemma drain_eof:
  assumes "pending p = []" "closes p" "returncode_attr p = None" "polls_running p = Some n"
  shows "\<exists>p'. drain w lf p s = Some (Inr p', s) \<and> returncode_attr p' = Some (exit_status p)"
  using assms
proof (induction n arbitrary: p)
  case 0
  then show ?case by (subst drain.simps) (simp add: step_exited)
next
  case (Suc n)
  have "drain w lf p s = drain w lf (p\<lparr>polls_running := Some n\<rparr>) s"
    using Suc.prems by (subst drain.simps) (simp add: step_running)
  moreover have "\<exists>p'. drain w lf (p\<lparr>polls_running := Some n\<rparr>) s = Some (Inr p', s) \<and>
      returncode_attr p' = Some (exit_status (p\<lparr>polls_running := Some n\<rparr>))"
    using Suc.prems by (intro Suc.IH) simp_all
  ultimately show ?case by simp
qed

lemma drain_lines:
  assumes "no_faults w" "pending p = map Line ls" "[] \<notin> set ls" "closes p"
    "returncode_attr p = None" "polls_running p = Some n"
  shows "\<exists>p'. drain w lf p s = Some (Inr p', drain_effect lf ls s) \<and>
              returncode_attr p' = Some (exit_status p)"
  using assms
proof (induction ls arbitrary: p s)
  case Nil
  then show ?case using drain_eof [of p n w lf s] by simp
next
  case (Cons l ls)
  have "l \<noteq> []" and "pending p = Line l # map Line ls"
    using Cons.prems by auto
  then have "drain_step w lf p s = Continue (p\<lparr>pending := map Line ls\<rparr>) (line_effect lf l s)"
    using Cons.prems(1) by (rule_tac step_line)
  then have "drain w lf p s = drain w lf (p\<lparr>pending := map Line ls\<rparr>) (line_effect lf l s)"
    by (subst drain.simps) simp
  moreover have "\<exists>p'. drain w lf (p\<lparr>pending := map Line ls\<rparr>) (line_effect lf l s)
        = Some (Inr p', drain_effect lf ls (line_effect lf l s)) \<and>
      returncode_attr p' = Some (exit_status (p\<lparr>pending := map Line ls\<rparr>))"
    using Cons.prems by (intro Cons.IH) simp_all
  ultimately show ?case by simp
qed

lemma trace_drain_effect:
  "trace (drain_effect lf ls s) = trace s @ concat (map (line_events lf) ls)"
  by (induction ls arbitrary: s) (simp_all add: line_effect_def)

lemma files_drain_effect:
  "files (drain_effect lf ls s) =
     (if truthy lf \<and> ls \<noteq> [] then
        (files s)(the lf \<mapsto> (case files s (the lf) of None \<Rightarrow> [] | Some c \<Rightarrow> c) @ concat ls)
      else files s)"
  by (induction ls arbitrary: s) (auto simp: line_effect_def)

lemma heap_drain_effect: "heap (drain_effect lf ls s) = heap s"
  by (induction ls arbitrary: s) (simp_all add: line_effect_def)

lemma dirs_drain_effect: "dirs (drain_effect lf ls s) = dirs s"
  by (induction ls arbitrary: s) (simp_all add: line_effect_def)

subsection \<open>A whole run when nothing fails\<close>

lemma build_cmd_frame:
  "trace (snd (build_cmd self req s)) = trace s \<and> files (snd (build_cmd self req s)) = files s \<and>
   dirs (snd (build_cmd self req s)) = dirs s \<and> environ (snd (build_cmd self req s)) = environ s"
  by (simp add: build_cmd_def new_list_def list_extend_def Let_def split: option.splits)

lemma cmd_value_snd: "heap (snd (build_cmd self req s)) ! fst (build_cmd self req s) = cmd_value self req s"
  by (simp add: cmd_value_def split_beta)

lemma wait_exited: "returncode_attr p = Some c \<Longrightarrow> wait p = Some (c, p)"
  by (simp add: wait_def)

lemma execute_body_clean:
  assumes nf: "no_faults w" and sp: "spawns w ls c"
    and lf: "truthy (log_file req) \<Longrightarrow> os_path_dirname (the (log_file req)) \<noteq> []"
  shows "\<exists>s'. execute_body w self req s =
            Some (Inr \<lparr>returncode = c,
                       error = (if c \<noteq> 0 then Some (''Execution failed, return code: '' @ str_int c)
                                else None)\<rparr>, s') \<and>
          trace s' = trace s
            @ [Log INFO (''Executing command: '' @ str_join '' '' (cmd_value self req s))]
            @ (if truthy (log_file req) then [MakeDirs (os_path_dirname (the (log_file req)))] else [])
            @ [Spawn (cmd_value self req s) (shell req)]
            @ concat (map (line_events (log_file req)) ls)
            @ [if c \<noteq> 0 then Log ERROR (''Command execution failed, return code: '' @ str_int c)
               else Log INFO (''Command execution successful, return code: '' @ str_int c)] \<and>
          files s' =
            (if truthy (log_file req) \<and> ls \<noteq> [] then
               (files s)(the (log_file req) \<mapsto>
                  (case files s (the (log_file req)) of None \<Rightarrow> [] | Some old \<Rightarrow> old) @ concat ls)
             else files s) \<and>
          dirs s' =
            (if truthy (log_file req) then dirs s \<union> set (dir_chain (os_path_dirname (the (log_file req))))
             else dirs s) \<and>
          heap s' = heap (snd (build_cmd self req s))"
proof -
  define cmd where "cmd = fst (build_cmd self req s)"
  define s1 where "s1 = snd (build_cmd self req s)"
  define s2 where "s2 = logger_info (''Executing command: '' @ str_join '' '' (heap s1 ! cmd)) s1"
  define s3 where "s3 = (if truthy (log_file req)
      then emit (MakeDirs (os_path_dirname (the (log_file req))))
             (s2\<lparr>dirs := dirs s2 \<union> set (dir_chain (os_path_dirname (the (log_file req))))\<rparr>)
      else s2)"
  have bc: "build_cmd self req s = (cmd, s1)"
    by (simp add: cmd_def s1_def)
  have cv: "heap s1 ! cmd = cmd_value self req s"
    by (simp add: cmd_def s1_def cmd_value_snd)
  have mk: "(if truthy (log_file req)
             then os_makedirs w (os_path_dirname (the (log_file req))) s2
             else (Inr (), s2)) = (Inr (), s3)"
    using nf lf by (simp add: os_makedirs_def s3_def no_faults_def)
  have h3: "heap s3 = heap s1"
    by (simp add: s3_def s2_def logger_info_def emit_def)
  obtain p where p: "popen w s3 (heap s3 ! cmd) (shell req) = Inr p" and ex: "exits p ls c"
    using sp unfolding spawns_def by blast
  define s4 where "s4 = emit (Spawn (heap s3 ! cmd) (shell req)) s3"
  have po: "subprocess_Popen w (heap s3 ! cmd) (shell req) s3 = (Inr p, s4)"
    by (simp add: subprocess_Popen_def p s4_def)
  obtain n where n: "polls_running p = Some n"
    using ex by (auto simp: exits_def)
  obtain p' where dr: "drain w (log_file req) p s4 = Some (Inr p', drain_effect (log_file req) ls s4)"
    and rc: "returncode_attr p' = Some (exit_status p)"
    using drain_lines [OF nf _ _ _ _ n, of ls "log_file req" s4] ex
    by (auto simp: exits_def)
  have wt: "wait p' = Some (c, p')"
    using rc ex by (simp add: wait_exited exits_def)
  define s6 where "s6 =
     (if c \<noteq> 0 then
        logger_error (''Command execution failed, return code: '' @ str_int c)
          (drain_effect (log_file req) ls s4)
      else
        logger_info (''Command execution successful, return code: '' @ str_int c)
          (drain_effect (log_file req) ls s4))"
  have eb: "execute_body w self req s =
      Some (Inr \<lparr>returncode = c,
                 error = (if c \<noteq> 0 then Some (''Execution failed, return code: '' @ str_int c)
                          else None)\<rparr>, s6)"
    by (simp only: execute_body_def bc Let_def prod.case s2_def [symmetric] mk sum.case po dr
        option.case wt s6_def)
  have fr: "trace s1 = trace s" "files s1 = files s" "dirs s1 = dirs s"
    using build_cmd_frame [of self req s] by (simp_all add: s1_def)
  have tr: "trace s6 = trace s
            @ [Log INFO (''Executing command: '' @ str_join '' '' (cmd_value self req s))]
            @ (if truthy (log_file req) then [MakeDirs (os_path_dirname (the (log_file req)))] else [])
            @ [Spawn (cmd_value self req s) (shell req)]
            @ concat (map (line_events (log_file req)) ls)
            @ [if c \<noteq> 0 then Log ERROR (''Command execution failed, return code: '' @ str_int c)
               else Log INFO (''Command execution successful, return code: '' @ str_int c)]"
    by (simp add: s6_def s4_def s3_def s2_def logger_info_def logger_error_def emit_def
        trace_drain_effect fr cv)
  have fi: "files s6 =
            (if truthy (log_file req) \<and> ls \<noteq> [] then
               (files s)(the (log_file req) \<mapsto>
                  (case files s (the (log_file req)) of None \<Rightarrow> [] | Some old \<Rightarrow> old) @ concat ls)
             else files s)"
    by (simp add: s6_def s4_def s3_def s2_def logger_info_def logger_error_def emit_def
        files_drain_effect fr)
  have di: "dirs s6 =
            (if truthy (log_file req) then dirs s \<union> set (dir_chain (os_path_dirname (the (log_file req))))
             else dirs s)"
    by (simp add: s6_def s4_def s3_def s2_def logger_info_def logger_error_def emit_def
        dirs_drain_effect fr)
  have he: "heap s6 = heap (snd (build_cmd self req s))"
    by (simp add: s6_def s4_def s3_def s2_def logger_info_def logger_error_def emit_def
        heap_drain_effect s1_def)
  show ?thesis
    using eb tr fi di he by blast
qed

lemma execute_clean:
  assumes "no_faults w" and "spawns w ls c"
    and "truthy (log_file req) \<Longrightarrow> os_path_dirname (the (log_file req)) \<noteq> []"
  shows "\<exists>s'. execute w self req s =
            Some (Inr \<lparr>returncode = c,
                       error = (if c \<noteq> 0 then Some (''Execution failed, return code: '' @ str_int c)
                                else None)\<rparr>, self, s') \<and>
          trace s' = trace s
            @ [Log INFO (''Executing command: '' @ str_join '' '' (cmd_value self req s))]
            @ (if truthy (log_file req) then [MakeDirs (os_path_dirname (the (log_file req)))] else [])
            @ [Spawn (cmd_value self req s) (shell req)]
            @ concat (map (line_events (log_file req)) ls)
            @ [if c \<noteq> 0 then Log ERROR (''Command execution failed, return code: '' @ str_int c)
               else Log INFO (''Command execution successful, return code: '' @ str_int c)] \<and>
          files s' =
            (if truthy (log_file req) \<and> ls \<noteq> [] then
               (files s)(the (log_file req) \<mapsto>
                  (case files s (the (log_file req)) of None \<Rightarrow> [] | Some old \<Rightarrow> old) @ concat ls)
             else files s) \<and>
          dirs s' =
            (if truthy (log_file req) then dirs s \<union> set (dir_chain (os_path_dirname (the (log_file req))))
             else dirs s) \<and>
          heap s' = heap (snd (build_cmd self req s))"
proof -
  obtain s' where b: "execute_body w self req s =
            Some (Inr \<lparr>returncode = c,
                       error = (if c \<noteq> 0 then Some (''Execution failed, return code: '' @ str_int c)
                                else None)\<rparr>, s')"
    and r: "trace s' = trace s
            @ [Log INFO (''Executing command: '' @ str_join '' '' (cmd_value self req s))]
            @ (if truthy (log_file req) then [MakeDirs (os_path_dirname (the (log_file req)))] else [])
            @ [Spawn (cmd_value self req s) (shell req)]
            @ concat (map (line_events (log_file req)) ls)
            @ [if c \<noteq> 0 then Log ERROR (''Command execution failed, return code: '' @ str_int c)
               else Log INFO (''Command execution successful, return code: '' @ str_int c)]"
          "files s' =
            (if truthy (log_file req) \<and> ls \<noteq> [] then
               (files s)(the (log_file req) \<mapsto>
                  (case files s (the (log_file req)) of None \<Rightarrow> [] | Some old \<Rightarrow> old) @ concat ls)
             else files s)"
          "dirs s' =
            (if truthy (log_file req) then dirs s \<union> set (dir_chain (os_path_dirname (the (log_file req))))
             else dirs s)"
          "heap s' = heap (snd (build_cmd self req s))"
    using execute_body_clean [OF assms, of self s] by blast
  have "execute w self req s =
            Some (Inr \<lparr>returncode = c,
                       error = (if c \<noteq> 0 then Some (''Execution failed, return code: '' @ str_int c)
                                else None)\<rparr>, self, s')"
    by (simp only: execute_def b option.case prod.case sum.case)
  with r show ?thesis by blast
qed

lemma no_faults_world_of: "no_faults (world_of r)"
  by (simp add: no_faults_def world_of_def)

lemma spawns_world_of: "[] \<notin> set ls \<Longrightarrow> spawns (world_of (Inr (child_of ls c))) ls c"
  by (simp add: spawns_def world_of_def child_of_def exits_def)

text \<open>
  C5. When no call fails and the child exits with status \<open>c\<close>, \<^verbatim>\<open>execute\<close> returns
  \<^verbatim>\<open>returncode\<close> \<open>c\<close>, with the error \<^verbatim>\<open>"Execution failed, return code: c"\<close> when \<open>c\<close> is
  not zero and with no error when it is zero.
\<close>

theorem exit_code_result:
  assumes "no_faults w" and "spawns w ls c"
    and "truthy (log_file req) \<Longrightarrow> os_path_dirname (the (log_file req)) \<noteq> []"
  shows "\<exists>s'. execute w self req s =
            Some (Inr \<lparr>returncode = c,
                       error = (if c \<noteq> 0 then Some (''Execution failed, return code: '' @ str_int c)
                                else None)\<rparr>, self, s')"
  using execute_clean [OF assms, of self s] by blast

theorem exit_code_result_witness:
  "no_faults (world_of (Inr (child_of [] 7))) \<and> spawns (world_of (Inr (child_of [] 7))) [] 7 \<and>
   \<not> truthy None \<and>
   (\<exists>s'. execute (world_of (Inr (child_of [] 7))) \<lparr>in_docker = True, conda_env = ''docker-env''\<rparr>
      \<lparr>script_path = ''job.py'', script_type = ''python'', args = None, shell = False, log_file = None\<rparr>
      (sys_of []) =
        Some (Inr \<lparr>returncode = 7, error = Some ''Execution failed, return code: 7''\<rparr>,
              \<lparr>in_docker = True, conda_env = ''docker-env''\<rparr>, s'))"
  using exit_code_result [of "world_of (Inr (child_of [] 7))" "[]" 7
      "\<lparr>script_path = ''job.py'', script_type = ''python'', args = None, shell = False, log_file = None\<rparr>"
      "\<lparr>in_docker = True, conda_env = ''docker-env''\<rparr>" "sys_of []"]
  by (simp add: no_faults_world_of spawns_world_of truthy_def str_int_def str_nat.simps digit_char_def)

subsection \<open>Sample runs\<close>

lemma cmd_value_job: "cmd_value docker_self (job ''job.py'' None lf) s = [''python'', ''job.py'']"
  by (simp add: cmd_value_eq valid_args_def args_value_def docker_self_def job_def endswith_def)

lemma dir_chain_logs: "dir_chain ''logs'' = [''logs'']"
  by code_simp

lemma dirname_logs: "os_path_dirname ''logs/run.log'' = ''logs''"
  by (simp add: os_path_dirname_def)

lemma str_int_0: "str_int 0 = ''0''"
  by (simp add: str_int_def str_nat.simps digit_char_def)

subsection \<open>Output forwarding\<close>

lemma line_events_eq:
  "line_events lf =
     (\<lambda>l. Print (py_strip l) #
            (if truthy lf then [FileOpen (the lf), FileWrite (the lf) l, FileClose (the lf)] else []))"
  by (simp add: line_events_def fun_eq_iff)

lemma concat_split_lines: "concat (split_lines t) = t"
  by (induction t) (auto split: list.splits)

lemma split_lines_nonempty: "[] \<notin> set (split_lines t)"
  by (induction t) (auto split: list.splits)

lemma split_lines_Nil: "(split_lines t = []) = (t = [])"
  by (cases t) (auto split: list.splits)

lemma universal_newlines_Nil: "(universal_newlines out = []) = (out = [])"
  by (cases out) auto

lemma concat_text_lines: "concat (text_lines out) = universal_newlines out"
  by (simp add: text_lines_def concat_split_lines)

lemma text_lines_nonempty: "[] \<notin> set (text_lines out)"
  by (simp add: text_lines_def split_lines_nonempty)

lemma text_lines_Nil: "(text_lines out = []) = (out = [])"
  by (simp add: text_lines_def split_lines_Nil universal_newlines_Nil)

lemma universal_newlines_no_CR: "CHR 0x0D \<notin> set (universal_newlines out)"
  by (induction out rule: universal_newlines.induct) (auto split: list.splits)

lemma universal_newlines_id: "CHR 0x0D \<notin> set out \<Longrightarrow> universal_newlines out = out"
  by (induction out) auto

lemma text_lines_progress: "text_lines progress_output = [''10%\<newline>'', ''done\<newline>'']"
  by (simp add: text_lines_def progress_output_def)

lemma text_lines_indented: "text_lines indented_crlf = [''  hi\<newline>'']"
  by (simp add: text_lines_def indented_crlf_def)

lemma spawns_writing_world_of: "spawns_writing (world_of (Inr (child_of (text_lines out) c))) out c"
  by (simp add: spawns_writing_def spawns_world_of text_lines_nonempty)

text \<open>
  C6, as the code has it. When no call fails and the child writes the text \<open>out\<close> and
  exits, \<^verbatim>\<open>execute\<close> handles in order the lines that \<^verbatim>\<open>readline()\<close> returns, which are
  the lines of \<open>out\<close> with every \<^verbatim>\<open>\r\n\<close> and \<^verbatim>\<open>\r\<close> turned into \<^verbatim>\<open>\n\<close>: each is printed
  with leading and trailing whitespace removed (\<^verbatim>\<open>output.strip()\<close>), and, when a log
  file is given, the line as read is then appended to that file, which is opened and
  closed for this one write. After the run the log file holds its former content
  followed by \<open>out\<close> with the line ends so translated, which has no carriage return and
  is \<open>out\<close> itself when \<open>out\<close> has none; the file is untouched when nothing was written.
\<close>

theorem output_lines_forwarded:
  assumes "no_faults w" and "spawns_writing w out c"
    and "truthy (log_file req) \<Longrightarrow> os_path_dirname (the (log_file req)) \<noteq> []"
  shows "\<exists>r s'. execute w self req s = Some (Inr r, self, s') \<and>
          trace s' = trace s
            @ [Log INFO (''Executing command: '' @ str_join '' '' (cmd_value self req s))]
            @ (if truthy (log_file req) then [MakeDirs (os_path_dirname (the (log_file req)))] else [])
            @ [Spawn (cmd_value self req s) (shell req)]
            @ concat (map (\<lambda>l. Print (py_strip l) #
                                 (if truthy (log_file req)
                                  then [FileOpen (the (log_file req)),
                                        FileWrite (the (log_file req)) l,
                                        FileClose (the (log_file req))]
                                  else [])) (text_lines out))
            @ [if c \<noteq> 0 then Log ERROR (''Command execution failed, return code: '' @ str_int c)
               else Log INFO (''Command execution successful, return code: '' @ str_int c)] \<and>
          files s' =
            (if truthy (log_file req) \<and> out \<noteq> [] then
               (files s)(the (log_file req) \<mapsto>
                  (case files s (the (log_file req)) of None \<Rightarrow> [] | Some old \<Rightarrow> old)
                  @ universal_newlines out)
             else files s) \<and>
          CHR 0x0D \<notin> set (universal_newlines out) \<and>
          (CHR 0x0D \<notin> set out \<longrightarrow> universal_newlines out = out)"
proof -
  have sp: "spawns w (text_lines out) c"
    using assms(2) by (simp add: spawns_writing_def)
  show ?thesis
    using execute_clean [OF assms(1) sp assms(3), of self s]
    unfolding line_events_eq
    by (auto simp: concat_text_lines text_lines_Nil universal_newlines_no_CR universal_newlines_id)
qed

theorem output_lines_forwarded_witness:
  "no_faults (world_of (Inr (child_of (text_lines progress_output) 0))) \<and>
   spawns_writing (world_of (Inr (child_of (text_lines progress_output) 0))) progress_output 0 \<and>
   os_path_dirname ''logs/run.log'' \<noteq> [] \<and>
   text_lines progress_output = [''10%\<newline>'', ''done\<newline>''] \<and>
   (\<exists>r s'. execute (world_of (Inr (child_of (text_lines progress_output) 0))) docker_self
              (job ''job.py'' None (Some ''logs/run.log'')) (sys_of [])
            = Some (Inr r, docker_self, s') \<and>
          trace s' =
            [Log INFO ''Executing command: python job.py'', MakeDirs ''logs'',
             Spawn [''python'', ''job.py''] False,
             Print ''10%'', FileOpen ''logs/run.log'',
             FileWrite ''logs/run.log'' ''10%\<newline>'', FileClose ''logs/run.log'',
             Print ''done'', FileOpen ''logs/run.log'',
             FileWrite ''logs/run.log'' ''done\<newline>'', FileClose ''logs/run.log'',
             Log INFO ''Command execution successful, return code: 0''] \<and>
          files s' ''logs/run.log'' = Some ''10%\<newline>done\<newline>'')"
proof -
  have t: "truthy (log_file (job ''job.py'' None (Some ''logs/run.log'')))"
    and l: "the (log_file (job ''job.py'' None (Some ''logs/run.log''))) = ''logs/run.log''"
    and h: "shell (job ''job.py'' None (Some ''logs/run.log'')) = False"
    by (simp_all add: job_def truthy_def)
  have p: "py_strip ''10%\<newline>'' = ''10%''" "py_strip ''done\<newline>'' = ''done''"
    by (simp_all add: py_strip_def py_rstrip_def py_isspace_def)
  have u: "universal_newlines progress_output = ''10%\<newline>done\<newline>''"
    by (simp add: progress_output_def)
  have e: "progress_output \<noteq> []"
    by (simp add: progress_output_def)
  have n: "no_faults (world_of (Inr (child_of (text_lines progress_output) 0)))"
    by (rule no_faults_world_of)
  have s: "spawns_writing (world_of (Inr (child_of (text_lines progress_output) 0))) progress_output 0"
    by (rule spawns_writing_world_of)
  have d: "os_path_dirname ''logs/run.log'' \<noteq> []"
    by (simp add: dirname_logs)
  have "\<exists>r s'. execute (world_of (Inr (child_of (text_lines progress_output) 0))) docker_self
              (job ''job.py'' None (Some ''logs/run.log'')) (sys_of [])
            = Some (Inr r, docker_self, s') \<and>
          trace s' =
            [Log INFO ''Executing command: python job.py'', MakeDirs ''logs'',
             Spawn [''python'', ''job.py''] False,
             Print ''10%'', FileOpen ''logs/run.log'',
             FileWrite ''logs/run.log'' ''10%\<newline>'', FileClose ''logs/run.log'',
             Print ''done'', FileOpen ''logs/run.log'',
             FileWrite ''logs/run.log'' ''done\<newline>'', FileClose ''logs/run.log'',
             Log INFO ''Command execution successful, return code: 0''] \<and>
          files s' ''logs/run.log'' = Some ''10%\<newline>done\<newline>''"
    using output_lines_forwarded [OF n s, where req = "job ''job.py'' None (Some ''logs/run.log'')"
        and self = docker_self and s = "sys_of []"] d
    by (auto simp: t l h cmd_value_job dirname_logs p u e text_lines_progress str_int_0 sys_of_def)
  with n s d text_lines_progress show ?thesis by blast
qed

text \<open>
  C6 as stated fails: when the child writes \<^verbatim>\<open>"  hi\r\n"\<close>, the console gets \<^verbatim>\<open>"hi"\<close>,
  while removing the trailing whitespace only would give \<^verbatim>\<open>"  hi"\<close>, and the log file
  gets \<^verbatim>\<open>"  hi\n"\<close>, which is not what the child wrote.
\<close>

theorem console_and_log_differ_from_child_output:
  "\<exists>r s'. execute (world_of (Inr (child_of (text_lines indented_crlf) 0))) docker_self
            (job ''job.py'' None (Some ''logs/run.log'')) (sys_of [])
          = Some (Inr r, docker_self, s') \<and>
        trace s' =
          [Log INFO ''Executing command: python job.py'', MakeDirs ''logs'',
           Spawn [''python'', ''job.py''] False,
           Print ''hi'', FileOpen ''logs/run.log'',
           FileWrite ''logs/run.log'' ''  hi\<newline>'', FileClose ''logs/run.log'',
           Log INFO ''Command execution successful, return code: 0''] \<and>
        py_rstrip indented_crlf = ''  hi'' \<and>
        Print (py_rstrip indented_crlf) \<notin> set (trace s') \<and>
        files s' ''logs/run.log'' = Some ''  hi\<newline>'' \<and>
        files s' ''logs/run.log'' \<noteq> Some indented_crlf"
proof -
  have t: "truthy (log_file (job ''job.py'' None (Some ''logs/run.log'')))"
    and l: "the (log_file (job ''job.py'' None (Some ''logs/run.log''))) = ''logs/run.log''"
    and h: "shell (job ''job.py'' None (Some ''logs/run.log'')) = False"
    by (simp_all add: job_def truthy_def)
  have p: "py_strip ''  hi\<newline>'' = ''hi''"
    by (simp add: py_strip_def py_rstrip_def py_isspace_def)
  have q: "py_rstrip indented_crlf = ''  hi''"
    by (simp add: py_rstrip_def py_isspace_def indented_crlf_def)
  have i: "indented_crlf \<noteq> ''  hi\<newline>''"
    by (simp add: indented_crlf_def)
  have n: "no_faults (world_of (Inr (child_of (text_lines indented_crlf) 0)))"
    by (rule no_faults_world_of)
  have s: "spawns (world_of (Inr (child_of (text_lines indented_crlf) 0))) (text_lines indented_crlf) 0"
    by (rule spawns_world_of) (rule text_lines_nonempty)
  have d: "os_path_dirname ''logs/run.log'' \<noteq> []"
    by (simp add: dirname_logs)
  obtain r s' where e: "execute (world_of (Inr (child_of (text_lines indented_crlf) 0))) docker_self
            (job ''job.py'' None (Some ''logs/run.log'')) (sys_of []) = Some (Inr r, docker_self, s')"
    and tr: "trace s' =
          [Log INFO ''Executing command: python job.py'', MakeDirs ''logs'',
           Spawn [''python'', ''job.py''] False,
           Print ''hi'', FileOpen ''logs/run.log'',
           FileWrite ''logs/run.log'' ''  hi\<newline>'', FileClose ''logs/run.log'',
           Log INFO ''Command execution successful, return code: 0'']"
    and f: "files s' ''logs/run.log'' = Some ''  hi\<newline>''"
    using execute_clean [OF n s, where req = "job ''job.py'' None (Some ''logs/run.log'')"
        and self = docker_self and s = "sys_of []"] d
    by (auto simp: t l h cmd_value_job dirname_logs line_events_eq p text_lines_indented str_int_0
        sys_of_def)
  show ?thesis
    using e tr f q i by simp
qed

subsection \<open>A run without output\<close>

text \<open>
  C7, as the code has it. When no call fails and the child exits with status 0
  without output, the result has \<^verbatim>\<open>returncode\<close> 0 and no error, and no file is created
  or changed; when a log file with a directory part is given, that directory and the
  directories on the way to it exist afterwards, and \<^verbatim>\<open>os.makedirs\<close> is called right
  before the spawn.
\<close>

theorem silent_success:
  assumes "no_faults w" and "spawns w [] 0"
    and "truthy (log_file req) \<Longrightarrow> os_path_dirname (the (log_file req)) \<noteq> []"
  shows "\<exists>s'. execute w self req s = Some (Inr \<lparr>returncode = 0, error = None\<rparr>, self, s') \<and>
          files s' = files s \<and>
          (truthy (log_file req) \<longrightarrow>
             os_path_dirname (the (log_file req)) \<in> dirs s' \<and>
             set (dir_chain (os_path_dirname (the (log_file req)))) \<subseteq> dirs s' \<and>
             trace s' = trace s @
               [Log INFO (''Executing command: '' @ str_join '' '' (cmd_value self req s)),
                MakeDirs (os_path_dirname (the (log_file req))),
                Spawn (cmd_value self req s) (shell req),
                Log INFO ''Command execution successful, return code: 0''])"
proof -
  have z: "str_int 0 = ''0''"
    by (simp add: str_int_def str_nat.simps digit_char_def)
  have d: "x \<in> set (dir_chain x)" for x
    by (simp add: dir_chain_def)
  show ?thesis
    using execute_clean [OF assms, of self s] d by (auto simp: z)
qed

theorem silent_success_witness:
  "no_faults (world_of (Inr (child_of [] 0))) \<and> spawns (world_of (Inr (child_of [] 0))) [] 0 \<and>
   truthy (Some ''logs/run.log'') \<and> os_path_dirname ''logs/run.log'' \<noteq> [] \<and>
   (\<exists>s'. execute (world_of (Inr (child_of [] 0))) docker_self
            (job ''job.py'' None (Some ''logs/run.log'')) (sys_of [])
          = Some (Inr \<lparr>returncode = 0, error = None\<rparr>, docker_self, s') \<and>
        files s' = Map.empty \<and> ''logs'' \<in> dirs s' \<and>
        trace s' =
          [Log INFO ''Executing command: python job.py'', MakeDirs ''logs'',
           Spawn [''python'', ''job.py''] False,
           Log INFO ''Command execution successful, return code: 0''])"
proof -
  have t: "truthy (log_file (job ''job.py'' None (Some ''logs/run.log'')))"
    and l: "the (log_file (job ''job.py'' None (Some ''logs/run.log''))) = ''logs/run.log''"
    and h: "shell (job ''job.py'' None (Some ''logs/run.log'')) = False"
    by (simp_all add: job_def truthy_def)
  have n: "no_faults (world_of (Inr (child_of [] 0)))"
    by (rule no_faults_world_of)
  have s: "spawns (world_of (Inr (child_of [] 0))) [] 0"
    by (rule spawns_world_of) simp
  have d: "os_path_dirname ''logs/run.log'' \<noteq> []"
    by (simp add: dirname_logs)
  have "\<exists>s'. execute (world_of (Inr (child_of [] 0))) docker_self
            (job ''job.py'' None (Some ''logs/run.log'')) (sys_of [])
          = Some (Inr \<lparr>returncode = 0, error = None\<rparr>, docker_self, s') \<and>
        files s' = Map.empty \<and> ''logs'' \<in> dirs s' \<and>
        trace s' =
          [Log INFO ''Executing command: python job.py'', MakeDirs ''logs'',
           Spawn [''python'', ''job.py''] False,
           Log INFO ''Command execution successful, return code: 0'']"
    using silent_success [OF n s, where req = "job ''job.py'' None (Some ''logs/run.log'')"
        and self = docker_self and s = "sys_of []"] d
    by (auto simp: t l h cmd_value_job dirname_logs sys_of_def)
  moreover have "truthy (Some ''logs/run.log'')"
    by (simp add: truthy_def)
  ultimately show ?thesis
    using n s d by blast
qed

text \<open>
  C7 as stated fails: after a run without output the requested log file does not
  exist, since the file is opened only when a line has been read.
\<close>

theorem silent_run_creates_no_log_file:
  "\<exists>s'. execute (world_of (Inr (child_of [] 0))) docker_self
            (job ''job.py'' None (Some ''logs/run.log'')) (sys_of [])
          = Some (Inr \<lparr>returncode = 0, error = None\<rparr>, docker_self, s') \<and>
        files s' ''logs/run.log'' = None \<and> \<not> path_exists s' ''logs/run.log''"
proof -
  have t: "truthy (log_file (job ''job.py'' None (Some ''logs/run.log'')))"
    and l: "the (log_file (job ''job.py'' None (Some ''logs/run.log''))) = ''logs/run.log''"
    by (simp_all add: job_def truthy_def)
  have n: "no_faults (world_of (Inr (child_of [] 0)))"
    by (rule no_faults_world_of)
  have s: "spawns (world_of (Inr (child_of [] 0))) [] 0"
    by (rule spawns_world_of) simp
  have d: "os_path_dirname ''logs/run.log'' \<noteq> []"
    by (simp add: dirname_logs)
  obtain s' where e: "execute (world_of (Inr (child_of [] 0))) docker_self
            (job ''job.py'' None (Some ''logs/run.log'')) (sys_of [])
          = Some (Inr \<lparr>returncode = 0, error = None\<rparr>, docker_self, s')"
    and f: "files s' = Map.empty" and g: "dirs s' = {''logs''}"
    using execute_clean [OF n s, where req = "job ''job.py'' None (Some ''logs/run.log'')"
        and self = docker_self and s = "sys_of []"] d
    by (auto simp: t l dirname_logs dir_chain_logs sys_of_def)
  show ?thesis
    using e f g by (simp add: path_exists_def)
qed

subsection \<open>The results of execute\<close>

lemma heap_py_print: "py_print w x s = (r, s') \<Longrightarrow> heap s' = heap s"
  by (auto simp: py_print_def emit_def split: option.splits)

lemma heap_append_file: "append_file w f d s = (r, s') \<Longrightarrow> heap s' = heap s"
  by (auto simp: append_file_def emit_def Let_def split: option.splits)

lemma heap_os_makedirs: "os_makedirs w d s = (r, s') \<Longrightarrow> heap s' = heap s"
  by (auto simp: os_makedirs_def emit_def split: option.splits if_splits)

lemma heap_subprocess_Popen: "subprocess_Popen w c b s = (r, s') \<Longrightarrow> heap s' = heap s"
  by (auto simp: subprocess_Popen_def emit_def split: sum.splits)

lemma drain_step_heap:
  "drain_step w lf p s = Raised e s' \<or> drain_step w lf p s = Break p' s' \<or>
   drain_step w lf p s = Continue p' s' \<Longrightarrow> heap s' = heap s"
  apply (auto simp: drain_step_def Let_def split: option.splits sum.splits prod.splits if_splits)
       apply (metis heap_py_print heap_append_file)+
  done

lemma drain_heap:
  assumes "drain w lf p s = Some y"
  shows "heap (snd y) = heap s"
proof (rule drain.raw_induct [where P = "\<lambda>w lf p s y. heap (snd y) = heap s", OF _ assms], goal_cases)
  case (1 drain' w lf p s y)
  show ?case
  proof (cases "drain_step w lf p s")
    case Blocked
    with 1(2) show ?thesis by simp
  next
    case (Raised e s1)
    with 1(2) drain_step_heap [of w lf p s e s1] show ?thesis by auto
  next
    case (Break p1 s1)
    with 1(2) drain_step_heap [of w lf p s _ s1 p1] show ?thesis by auto
  next
    case (Continue p1 s1)
    with 1(2) have "drain' w lf p1 s1 = Some y" by simp
    then have "heap (snd y) = heap s1" by (rule 1(1))
    moreover have "heap s1 = heap s" using Continue drain_step_heap [of w lf p s _ s1 p1] by auto
    ultimately show ?thesis by simp
  qed
qed

lemma execute_body_heap:
  "execute_body w self req s = Some (out, s') \<Longrightarrow> heap s' = heap (snd (build_cmd self req s))"
  by (auto simp: execute_body_def Let_def logger_info_def logger_error_def emit_def
      split: prod.splits sum.splits option.splits if_splits
      dest!: heap_os_makedirs heap_subprocess_Popen drain_heap)

lemma execute_body_result:
  "execute_body w self req s = Some (Inr r, s') \<Longrightarrow> (error r \<noteq> None) = (returncode r \<noteq> 0)"
  by (auto simp: execute_body_def Let_def split: prod.splits sum.splits option.splits if_splits)


lemma build_cmd_heap:
  "valid_args req s \<Longrightarrow> heap (snd (build_cmd self req s)) = heap s @ [cmd_value self req s]"
  by (auto simp: cmd_value_def build_cmd_def new_list_def list_extend_def valid_args_def
      nth_append Let_def split: option.splits)

lemma execute_heap:
  assumes "execute w self req s = Some (out, self', s')"
  shows "self' = self \<and> heap s' = heap (snd (build_cmd self req s))"
proof (cases "execute_body w self req s")
  case None
  with assms show ?thesis by (simp add: execute_def)
next
  case (Some y)
  obtain o1 s1 where y: "y = (o1, s1)" by (cases y)
  have h: "heap s1 = heap (snd (build_cmd self req s))"
    using Some y by (auto dest: execute_body_heap)
  show ?thesis
    using assms Some y h
    by (auto simp: execute_def Let_def logger_error_def emit_def split: sum.splits if_splits)
qed

text \<open>
  C8. In every result that \<^verbatim>\<open>execute\<close> returns, the error is present exactly when
  \<^verbatim>\<open>returncode\<close> is not zero; this covers the return at lines 126 to 131 and the one in
  the handler, whose \<^verbatim>\<open>returncode\<close> is \<open>-1\<close>.
\<close>

theorem error_iff_nonzero:
  "execute w self req s = Some (Inr r, self', s') \<Longrightarrow> (error r \<noteq> None) = (returncode r \<noteq> 0)"
  by (auto simp: execute_def Let_def split: option.splits prod.splits sum.splits if_splits
      dest: execute_body_result)

theorem error_iff_nonzero_witness:
  "\<exists>r s'. execute (world_of (Inr (child_of [] 7))) docker_self (job ''job.py'' None None) (sys_of [])
            = Some (Inr r, docker_self, s') \<and>
          returncode r = 7 \<and> error r \<noteq> None \<and> (error r \<noteq> None) = (returncode r \<noteq> 0)"
proof -
  obtain r s' where e: "execute (world_of (Inr (child_of [] 7))) docker_self
      (job ''job.py'' None None) (sys_of []) = Some (Inr r, docker_self, s')"
    and r: "returncode r = 7"
    using execute_clean [where w = "world_of (Inr (child_of [] 7))" and ls = "[]" and c = 7
        and req = "job ''job.py'' None None" and self = docker_self and s = "sys_of []"]
      no_faults_world_of spawns_world_of [of "[]" 7]
    by (auto simp: job_def truthy_def)
  show ?thesis
    using error_iff_nonzero [OF e] e r by auto
qed

subsection \<open>Exceptions\<close>

text \<open>
  C1, as the code has it. \<^verbatim>\<open>execute\<close> never lets an instance of \<^verbatim>\<open>Exception\<close> escape:
  when the \<^verbatim>\<open>try\<close> block raises one, before or during spawn, drain or wait, the call
  returns \<^verbatim>\<open>returncode\<close> \<open>-1\<close> and the error
  \<^verbatim>\<open>"Error occurred while executing <script_type> script: <str(e)>"\<close>, which is also
  logged. When the block raises what is no instance of \<^verbatim>\<open>Exception\<close>, the handler does
  not run and the raised object reaches the caller.
\<close>

theorem exception_never_escapes:
  "(execute w self req s = Some (Inl e, self', s') \<longrightarrow> \<not> is_Exception e) \<and>
   (execute_body w self req s = Some (Inl e, s1) \<and> is_Exception e \<longrightarrow>
      execute w self req s =
        Some (Inr \<lparr>returncode = - 1,
                   error = Some (''Error occurred while executing '' @ script_type req
                                 @ '' script: '' @ str_exn e)\<rparr>,
              self,
              logger_error (''Error occurred while executing '' @ script_type req
                            @ '' script: '' @ str_exn e) s1)) \<and>
   (execute_body w self req s = Some (Inl e, s1) \<and> \<not> is_Exception e \<longrightarrow>
      execute w self req s = Some (Inl e, self, s1))"
  by (auto simp: execute_def Let_def split: option.splits prod.splits sum.splits if_splits)

theorem exception_never_escapes_witness:
  "is_Exception (Exn Exception ''FileNotFoundError''
      (''[Errno 2] No such file or directory: '' @ [CHR 0x27] @ ''nope'' @ [CHR 0x27])) \<and>
   execute (world_of (Inl (Exn Exception ''FileNotFoundError''
      (''[Errno 2] No such file or directory: '' @ [CHR 0x27] @ ''nope'' @ [CHR 0x27]))))
     docker_self (job ''nope'' None None) (sys_of []) =
     Some (Inr \<lparr>returncode = - 1,
                error = Some (''Error occurred while executing python script: ''
                  @ ''[Errno 2] No such file or directory: '' @ [CHR 0x27] @ ''nope'' @ [CHR 0x27])\<rparr>,
           docker_self,
           \<lparr>environ = Map.empty, dirs = {}, files = Map.empty, heap = [[''nope'']],
            trace = [Log INFO ''Executing command: nope'',
                     Log ERROR (''Error occurred while executing python script: ''
                  @ ''[Errno 2] No such file or directory: '' @ [CHR 0x27] @ ''nope'' @ [CHR 0x27])]\<rparr>) \<and>
   \<not> is_Exception (Exn BaseException ''KeyboardInterrupt'' []) \<and>
   execute (world_of (Inr interrupted)) docker_self (job ''job.py'' None None) (sys_of []) =
     Some (Inl (Exn BaseException ''KeyboardInterrupt'' []), docker_self,
           \<lparr>environ = Map.empty, dirs = {}, files = Map.empty, heap = [[''python'', ''job.py'']],
            trace = [Log INFO ''Executing command: python job.py'',
                     Spawn [''python'', ''job.py''] False]\<rparr>)"
proof -
  have b: "execute_body (world_of (Inl (Exn Exception ''FileNotFoundError''
      (''[Errno 2] No such file or directory: '' @ [CHR 0x27] @ ''nope'' @ [CHR 0x27]))))
     docker_self (job ''nope'' None None) (sys_of []) =
     Some (Inl (Exn Exception ''FileNotFoundError''
      (''[Errno 2] No such file or directory: '' @ [CHR 0x27] @ ''nope'' @ [CHR 0x27])),
       \<lparr>environ = Map.empty, dirs = {}, files = Map.empty, heap = [[''nope'']],
            trace = [Log INFO ''Executing command: nope'']\<rparr>)"
    by (simp add: execute_body_def build_cmd_def new_list_def docker_self_def job_def sys_of_def
        endswith_def logger_info_def emit_def truthy_def subprocess_Popen_def world_of_def)
  have d: "drain (world_of (Inr interrupted)) None interrupted s
           = Some (Inl (Exn BaseException ''KeyboardInterrupt'' []), s)" for s
    by (subst drain.simps) (simp add: drain_step_def readline_def interrupted_def)
  have k: "execute_body (world_of (Inr interrupted)) docker_self (job ''job.py'' None None) (sys_of []) =
     Some (Inl (Exn BaseException ''KeyboardInterrupt'' []),
           \<lparr>environ = Map.empty, dirs = {}, files = Map.empty, heap = [[''python'', ''job.py'']],
            trace = [Log INFO ''Executing command: python job.py'',
                     Spawn [''python'', ''job.py''] False]\<rparr>)"
    by (simp add: execute_body_def build_cmd_def new_list_def docker_self_def job_def sys_of_def
        endswith_def logger_info_def emit_def truthy_def subprocess_Popen_def world_of_def
        d [unfolded world_of_def])
  have 1: "execute (world_of (Inl (Exn Exception ''FileNotFoundError''
      (''[Errno 2] No such file or directory: '' @ [CHR 0x27] @ ''nope'' @ [CHR 0x27]))))
     docker_self (job ''nope'' None None) (sys_of []) =
     Some (Inr \<lparr>returncode = - 1,
                error = Some (''Error occurred while executing python script: ''
                  @ ''[Errno 2] No such file or directory: '' @ [CHR 0x27] @ ''nope'' @ [CHR 0x27])\<rparr>,
           docker_self,
           \<lparr>environ = Map.empty, dirs = {}, files = Map.empty, heap = [[''nope'']],
            trace = [Log INFO ''Executing command: nope'',
                     Log ERROR (''Error occurred while executing python script: ''
                  @ ''[Errno 2] No such file or directory: '' @ [CHR 0x27] @ ''nope'' @ [CHR 0x27])]\<rparr>)"
    using exception_never_escapes [of "world_of (Inl (Exn Exception ''FileNotFoundError''
      (''[Errno 2] No such file or directory: '' @ [CHR 0x27] @ ''nope'' @ [CHR 0x27])))"
      docker_self "job ''nope'' None None" "sys_of []" "Exn Exception ''FileNotFoundError''
      (''[Errno 2] No such file or directory: '' @ [CHR 0x27] @ ''nope'' @ [CHR 0x27])"
      docker_self "sys_of []"
      "\<lparr>environ = Map.empty, dirs = {}, files = Map.empty, heap = [[''nope'']],
            trace = [Log INFO ''Executing command: nope'']\<rparr>"] b
    by (simp add: logger_error_def emit_def job_def)
  have 2: "execute (world_of (Inr interrupted)) docker_self (job ''job.py'' None None) (sys_of []) =
     Some (Inl (Exn BaseException ''KeyboardInterrupt'' []), docker_self,
           \<lparr>environ = Map.empty, dirs = {}, files = Map.empty, heap = [[''python'', ''job.py'']],
            trace = [Log INFO ''Executing command: python job.py'',
                     Spawn [''python'', ''job.py''] False]\<rparr>)"
    using exception_never_escapes [of "world_of (Inr interrupted)"
      docker_self "job ''job.py'' None None" "sys_of []" "Exn BaseException ''KeyboardInterrupt'' []"
      docker_self "sys_of []"
      "\<lparr>environ = Map.empty, dirs = {}, files = Map.empty, heap = [[''python'', ''job.py'']],
            trace = [Log INFO ''Executing command: python job.py'',
                     Spawn [''python'', ''job.py''] False]\<rparr>"] k
    by simp
  show ?thesis
    using 1 2 by simp
qed

text \<open>
  C1 as stated fails: a \<^verbatim>\<open>KeyboardInterrupt\<close> raised while a line is read is no
  instance of \<^verbatim>\<open>Exception\<close>, so \<^verbatim>\<open>except Exception\<close> does not catch it and it reaches
  the caller.
\<close>

theorem keyboard_interrupt_escapes:
  "map_option fst (execute (world_of (Inr interrupted)) docker_self (job ''job.py'' None None) (sys_of []))
   = Some (Inl (Exn BaseException ''KeyboardInterrupt'' []))"
proof -
  have d: "drain (world_of (Inr interrupted)) None interrupted s
           = Some (Inl (Exn BaseException ''KeyboardInterrupt'' []), s)" for s
    by (subst drain.simps) (simp add: drain_step_def readline_def interrupted_def)
  show ?thesis
    by (simp add: execute_def execute_body_def build_cmd_def new_list_def docker_self_def job_def
        sys_of_def endswith_def logger_info_def emit_def truthy_def subprocess_Popen_def world_of_def
        d [unfolded world_of_def])
qed

lemma dirname_bare: "CHR ''/'' \<notin> set f \<Longrightarrow> os_path_dirname f = []"
  by (auto simp: os_path_dirname_def dropWhile_eq_Nil_conv)

lemma execute_body_bare:
  assumes "log_file req = Some f" and "f \<noteq> []" and "CHR ''/'' \<notin> set f"
  shows "execute_body w self req s =
           Some (Inl (Exn Exception ''FileNotFoundError''
                        (''[Errno 2] No such file or directory: '' @ [CHR 0x27, CHR 0x27])),
                 logger_info (''Executing command: '' @ str_join '' '' (cmd_value self req s))
                   (snd (build_cmd self req s)))"
proof -
  define cmd where "cmd = fst (build_cmd self req s)"
  define s1 where "s1 = snd (build_cmd self req s)"
  define s2 where "s2 = logger_info (''Executing command: '' @ str_join '' '' (heap s1 ! cmd)) s1"
  have bc: "build_cmd self req s = (cmd, s1)"
    by (simp add: cmd_def s1_def)
  have cv: "heap s1 ! cmd = cmd_value self req s"
    by (simp add: cmd_def s1_def cmd_value_snd)
  have mk: "(if truthy (log_file req)
             then os_makedirs w (os_path_dirname (the (log_file req))) s2
             else (Inr (), s2)) =
            (Inl (Exn Exception ''FileNotFoundError''
                    (''[Errno 2] No such file or directory: '' @ [CHR 0x27, CHR 0x27])), s2)"
    using assms by (simp add: truthy_def dirname_bare os_makedirs_def)
  have "execute_body w self req s =
          Some (Inl (Exn Exception ''FileNotFoundError''
                       (''[Errno 2] No such file or directory: '' @ [CHR 0x27, CHR 0x27])), s2)"
    by (simp only: execute_body_def bc Let_def prod.case s2_def [symmetric] mk sum.case)
  then have "execute_body w self req s =
          Some (Inl (Exn Exception ''FileNotFoundError''
                       (''[Errno 2] No such file or directory: '' @ [CHR 0x27, CHR 0x27])),
                logger_info (''Executing command: '' @ str_join '' '' (cmd_value self req s)) s1)"
    unfolding s2_def cv .
  then show ?thesis
    unfolding s1_def .
qed

text \<open>
  C9. For a log file that is a bare file name (not empty, no slash), \<^verbatim>\<open>os.makedirs\<close>
  is called on the empty path and raises; \<^verbatim>\<open>execute\<close> returns \<^verbatim>\<open>returncode\<close> \<open>-1\<close> with
  an error, and its only effects are the two log lines: no child is spawned.
\<close>

theorem bare_log_file_fails_before_spawn:
  assumes "log_file req = Some f" and "f \<noteq> []" and "CHR ''/'' \<notin> set f"
  shows "\<exists>s'. execute w self req s =
            Some (Inr \<lparr>returncode = - 1,
                       error = Some (''Error occurred while executing '' @ script_type req
                                     @ '' script: [Errno 2] No such file or directory: ''
                                     @ [CHR 0x27, CHR 0x27])\<rparr>, self, s') \<and>
          trace s' = trace s @
            [Log INFO (''Executing command: '' @ str_join '' '' (cmd_value self req s)),
             Log ERROR (''Error occurred while executing '' @ script_type req
                        @ '' script: [Errno 2] No such file or directory: ''
                        @ [CHR 0x27, CHR 0x27])]"
  using build_cmd_frame [of self req s]
  by (simp add: execute_def execute_body_bare [OF assms] logger_info_def logger_error_def emit_def
      Let_def)

theorem bare_log_file_fails_before_spawn_witness:
  "''run.log'' \<noteq> [] \<and> CHR ''/'' \<notin> set ''run.log'' \<and>
   (\<exists>s'. execute (world_of (Inr (child_of [] 0))) docker_self (job ''job.py'' None (Some ''run.log''))
            (sys_of []) =
          Some (Inr \<lparr>returncode = - 1,
                     error = Some (''Error occurred while executing python script: ''
                                   @ ''[Errno 2] No such file or directory: '' @ [CHR 0x27, CHR 0x27])\<rparr>,
                docker_self, s') \<and>
          trace s' = [Log INFO ''Executing command: python job.py'',
                      Log ERROR (''Error occurred while executing python script: ''
                                 @ ''[Errno 2] No such file or directory: '' @ [CHR 0x27, CHR 0x27])])"
  using bare_log_file_fails_before_spawn [of "job ''job.py'' None (Some ''run.log'')" "''run.log''"
      "world_of (Inr (child_of [] 0))" docker_self "sys_of []"]
  by (simp add: cmd_value_job) (simp add: job_def sys_of_def)

subsection \<open>What execute leaves unchanged\<close>

text \<open>
  C10. A call of \<^verbatim>\<open>execute\<close> that comes back, with a result or an exception, leaves
  the executor as it was and every list object that existed before the call
  unchanged, the caller's \<open>args\<close> among them; so a second call with the same request
  constructs the same command.
\<close>

theorem execute_frame:
  assumes "execute w self req s = Some (out, self', s')" and "valid_args req s"
  shows "self' = self \<and> take (length (heap s)) (heap s') = heap s \<and>
         args_value req s' = args_value req s \<and>
         cmd_value self' req s' = cmd_value self req s"
proof -
  have h: "self' = self" "heap s' = heap s @ [cmd_value self req s]"
    using execute_heap [OF assms(1)] build_cmd_heap [OF assms(2)] by simp_all
  have a: "args_value req s' = args_value req s"
    using assms(2) h by (auto simp: args_value_def valid_args_def nth_append split: option.splits)
  have v: "valid_args req s'"
    using assms(2) h by (auto simp: valid_args_def split: option.splits)
  show ?thesis
    using h a by (simp add: cmd_value_eq [OF v] cmd_value_eq [OF assms(2)])
qed

theorem execute_frame_witness:
  "valid_args (job ''job.py'' (Some 0) None) (sys_of [[''--x'', ''1'']]) \<and>
   (\<exists>out s'. execute (world_of (Inr (child_of [''hello''] 0))) docker_self (job ''job.py'' (Some 0) None)
               (sys_of [[''--x'', ''1'']]) = Some (out, docker_self, s') \<and>
             args_value (job ''job.py'' (Some 0) None) s' = [''--x'', ''1''] \<and>
             cmd_value docker_self (job ''job.py'' (Some 0) None) s' = [''python'', ''job.py'', ''--x'', ''1''])"
proof -
  have v: "valid_args (job ''job.py'' (Some 0) None) (sys_of [[''--x'', ''1'']])"
    by (simp add: valid_args_def job_def sys_of_def)
  obtain out s' where e: "execute (world_of (Inr (child_of [''hello''] 0))) docker_self
      (job ''job.py'' (Some 0) None) (sys_of [[''--x'', ''1'']]) = Some (out, docker_self, s')"
    using execute_clean [where w = "world_of (Inr (child_of [''hello''] 0))" and ls = "[''hello'']"
        and c = 0 and req = "job ''job.py'' (Some 0) None" and self = docker_self
        and s = "sys_of [[''--x'', ''1'']]"]
      no_faults_world_of spawns_world_of [of "[''hello'']" 0]
    by (auto simp: job_def truthy_def)
  have c: "cmd_value docker_self (job ''job.py'' (Some 0) None) (sys_of [[''--x'', ''1'']])
           = [''python'', ''job.py'', ''--x'', ''1'']"
    by (simp add: cmd_value_eq [OF v]) (simp add: docker_self_def job_def endswith_def args_value_def sys_of_def)
  have a: "args_value (job ''job.py'' (Some 0) None) (sys_of [[''--x'', ''1'']]) = [''--x'', ''1'']"
    by (simp add: args_value_def job_def sys_of_def)
  show ?thesis
    using execute_frame [OF e v] e v c a by auto
qed

end
